theory Spec2Isabelle
  imports Main "HOL-Library.Sublist" "HOL-Library.Word"
begin

section \<open>The sls wrapper (wrapper.go) as a shallow embedding\<close>

text \<open>
  The Go package drives external programs (sls, mvn, dotnet, go), the file system and the
  clock. Everything outside the package is an explicit \<open>world\<close>: oracles that answer each
  request, and a trace of the requests made so far. Each Go function becomes a HOL function
  that takes the world and returns its result with the world it leaves behind. A Go
  \<open>error\<close> is a \<open>go_error option\<close>, \<open>None\<close> being \<open>nil\<close>.
\<close>

subsection \<open>Go values\<close>

text \<open>
  An \<open>error\<close> value: the text \<open>err.Error()\<close> yields, and whether \<open>os.IsNotExist\<close>
  holds of it. \<open>errors.New\<close> builds an error for which it does not hold.
\<close>

datatype go_error = GoError (Error_text: string) (IsNotExist: bool)

definition errors_New :: "string \<Rightarrow> go_error" where
  "errors_New msg = GoError msg False"

subsection \<open>The data model\<close>

definition YamlName :: string where
  "YamlName = ''serverless.yml''"

definition slsRetries :: nat where
  "slsRetries = 10"

record FunctionMeta =
  Name :: string
  Handler :: string
  Description :: string
  Runtime :: string
  MemorySize :: string

type_synonym Functions = "string \<rightharpoonup> FunctionMeta"

record Provider =
  prov_Name :: string
  prov_Project :: string
  prov_Stage :: string

record ServiceStack =
  stk_StackId :: string
  stk_Provider :: Provider
  stk_Functions :: Functions

text \<open>
  \<open>Opts\<close> is a Go map that \<open>execSlsCmd\<close> ranges over; Go leaves the order of a range over
  a map open, and the order decides the argument list. The field holds the entries in the
  order the range yields them, and every theorem holds for every order.
\<close>

record Wrapper =
  provider :: string
  slsPath :: string
  yamlDirPath :: string
  stack :: ServiceStack
  suffixW :: string
  Opts :: "(string \<times> string) list"

subsection \<open>The world outside the package\<close>

text \<open>
  An \<open>exec.Cmd\<close> as \<open>exec.Command(name, args...)\<close> builds it and \<open>cmd.Dir\<close> completes it.
  \<open>cmd_Env\<close> is the field \<open>Env\<close>: \<open>None\<close> is Go's nil, with which the child inherits the
  environment of the calling process.
\<close>

record Cmd =
  cmd_Name :: string
  cmd_Args :: "string list"
  cmd_Dir :: string
  cmd_Env :: "string list option"

text \<open>
  One of the two goroutines of \<open>execCmd\<close>, \<open>go func() { _, errStdout = io.Copy(...) }()\<close>
  and its twin for the standard error. Nothing makes \<open>execCmd\<close> wait for them: it reads
  \<open>errStdout\<close> and \<open>errStderr\<close> as soon as \<open>cmd.Wait()\<close> has returned. \<open>copy_result\<close> is what
  \<open>io.Copy\<close> returns. With \<open>Copied\<close> the goroutine has assigned it before \<open>execCmd\<close> reads
  the variable; with \<open>Copying\<close> the goroutine is still at work then, and assigns it later.
  \<open>seen\<close> is what the read yields: the result of a finished copy, and else the nil the
  variable was declared with.
\<close>

datatype copy =
  Copied (copy_result: "go_error option")
| Copying (copy_result: "go_error option")

fun seen :: "copy \<Rightarrow> go_error option" where
  "seen (Copied r) = r"
| "seen (Copying r) = None"

text \<open>
  What one started command does. Either \<open>cmd.Start()\<close> fails, or the process runs: then
  \<open>stdoutBuf\<close> is what the buffer holds when \<open>execCmd\<close> reads it (all of the standard output
  when its copy is finished, what was copied so far when it is not), \<open>stdoutCopy\<close> and
  \<open>stderrCopy\<close> are the two goroutines, and \<open>waitErr\<close> is the error of \<open>cmd.Wait()\<close>.
\<close>

datatype proc_outcome =
  StartFails go_error
| Runs (stdoutBuf: string) (stdoutCopy: copy) (stderrCopy: copy) (waitErr: "go_error option")

datatype event =
  LookPath string
| ReadFile string
| Stat string
| Now
| Start Cmd
| Sleep nat

text \<open>
  The trace is in the order of the calls. \<open>procs k c\<close> is the outcome of the command \<open>c\<close>
  when \<open>k\<close> commands have been started before it; the other oracles are asked at the time
  \<open>length trace\<close>. \<open>Sleep\<close> carries the duration in nanoseconds (a \<open>time.Duration\<close>).
\<close>

record world =
  trace :: "event list"
  procs :: "nat \<Rightarrow> Cmd \<Rightarrow> proc_outcome"
  stats :: "nat \<Rightarrow> string \<Rightarrow> go_error option"
  clock :: "nat \<Rightarrow> 64 word"
  files :: "nat \<Rightarrow> string \<Rightarrow> go_error + string"
  lookups :: "nat \<Rightarrow> string \<Rightarrow> go_error + string"

definition emit :: "event \<Rightarrow> world \<Rightarrow> world" where
  "emit e wd = wd\<lparr>trace := trace wd @ [e]\<rparr>"

fun is_Start :: "event \<Rightarrow> bool" where
  "is_Start (Start c) = True"
| "is_Start _ = False"

fun is_Sleep :: "event \<Rightarrow> bool" where
  "is_Sleep (Sleep d) = True"
| "is_Sleep _ = False"

definition started :: "event list \<Rightarrow> nat" where
  "started tr = length (filter is_Start tr)"

subsection \<open>Library functions of Go the package calls\<close>

text \<open>
  Go strings are byte sequences, here \<open>string\<close>. \<open>strings.TrimSpace\<close> removes the leading and
  the trailing runes that \<open>unicode.IsSpace\<close> accepts; on the bytes, these are the UTF-8
  encodings below (tab, LF, VT, FF, CR, space, U+0085, U+00A0, U+1680, U+2000 to U+200A,
  U+2028, U+2029, U+202F, U+205F, U+3000).
\<close>

definition space_runes :: "string list" where
  "space_runes =
    [[CHR 0x09], [CHR 0x0A], [CHR 0x0B], [CHR 0x0C], [CHR 0x0D], [CHR 0x20],
     [CHR 0xC2, CHR 0x85], [CHR 0xC2, CHR 0xA0], [CHR 0xE1, CHR 0x9A, CHR 0x80],
     [CHR 0xE2, CHR 0x80, CHR 0x80], [CHR 0xE2, CHR 0x80, CHR 0x81],
     [CHR 0xE2, CHR 0x80, CHR 0x82], [CHR 0xE2, CHR 0x80, CHR 0x83],
     [CHR 0xE2, CHR 0x80, CHR 0x84], [CHR 0xE2, CHR 0x80, CHR 0x85],
     [CHR 0xE2, CHR 0x80, CHR 0x86], [CHR 0xE2, CHR 0x80, CHR 0x87],
     [CHR 0xE2, CHR 0x80, CHR 0x88], [CHR 0xE2, CHR 0x80, CHR 0x89],
     [CHR 0xE2, CHR 0x80, CHR 0x8A], [CHR 0xE2, CHR 0x80, CHR 0xA8],
     [CHR 0xE2, CHR 0x80, CHR 0xA9], [CHR 0xE2, CHR 0x80, CHR 0xAF],
     [CHR 0xE2, CHR 0x81, CHR 0x9F], [CHR 0xE3, CHR 0x80, CHR 0x80]]"

function strip_prefixes :: "string list \<Rightarrow> string \<Rightarrow> string" where
  "strip_prefixes ts s =
     (case find (\<lambda>t. t \<noteq> [] \<and> prefix t s) ts of
        None \<Rightarrow> s
      | Some t \<Rightarrow> strip_prefixes ts (drop (length t) s))"
  by pat_completeness auto
termination
proof (relation "measure (\<lambda>(ts, s). length s)")
  show "wf (measure (\<lambda>(ts, s). length s))" by simp
next
  fix ts :: "string list" and s t :: string
  assume "find (\<lambda>t. t \<noteq> [] \<and> prefix t s) ts = Some t"
  then have "t \<noteq> []" and "prefix t s"
    by (auto simp: find_Some_iff)
  then have "s \<noteq> []" by auto
  with \<open>t \<noteq> []\<close> show "((ts, drop (length t) s), (ts, s)) \<in> measure (\<lambda>(ts, s). length s)"
    by simp
qed

declare strip_prefixes.simps [simp del]

definition TrimSpace :: "string \<Rightarrow> string" where
  "TrimSpace s =
     rev (strip_prefixes (map rev space_runes) (rev (strip_prefixes space_runes s)))"

text \<open>
  \<open>strconv.FormatInt(i, 10)\<close>: the decimal digits of the magnitude, after a minus sign when
  \<open>i\<close> is negative.
\<close>

definition digit_char :: "nat \<Rightarrow> char" where
  "digit_char d = ''0123456789'' ! d"

function FormatUint :: "nat \<Rightarrow> string" where
  "FormatUint n =
     (if n < 10 then [digit_char n] else FormatUint (n div 10) @ [digit_char (n mod 10)])"
  by pat_completeness auto
termination
  by (relation "measure id") auto

declare FormatUint.simps [simp del]

definition FormatInt :: "64 word \<Rightarrow> string" where
  "FormatInt i =
     (if sint i < 0 then CHR ''-'' # FormatUint (nat (- sint i)) else FormatUint (nat (sint i)))"

text \<open>
  \<open>strings.Replace(s, old, new, -1)\<close>, the only count the package passes. With a non-empty
  \<open>old\<close> the occurrences are found from left to right, each search starting behind the
  occurrence before. With an empty \<open>old\<close> Go puts \<open>new\<close> in front of every rune and at the
  end; \<open>rune_size\<close> is the width \<open>utf8.DecodeRuneInString\<close> reports, an invalid byte
  counting as a rune of width one.
\<close>

definition in_range :: "nat \<Rightarrow> nat \<Rightarrow> char \<Rightarrow> bool" where
  "in_range lo hi c = (lo \<le> of_char c \<and> (of_char c :: nat) \<le> hi)"

fun rune_size :: "string \<Rightarrow> nat" where
  "rune_size [] = 0"
| "rune_size (s0 # rest) =
     (let x = (of_char s0 :: nat) in
      if x < 0x80 \<or> x < 0xC2 \<or> 0xF4 < x then 1
      else
        let sz = (if x < 0xE0 then 2 else if x < 0xF0 then 3 else (4::nat));
            lo = (if x = 0xE0 then 0xA0 else if x = 0xF0 then 0x90 else 0x80);
            hi = (if x = 0xED then 0x9F else if x = 0xF4 then 0x8F else 0xBF)
        in if Suc (length rest) < sz then 1
           else if \<not> in_range lo hi (rest ! 0) then 1
           else if sz \<le> 2 then 2
           else if \<not> in_range 0x80 0xBF (rest ! 1) then 1
           else if sz \<le> 3 then 3
           else if \<not> in_range 0x80 0xBF (rest ! 2) then 1
           else 4)"

function insert_runes :: "string \<Rightarrow> string \<Rightarrow> string" where
  "insert_runes new s =
     (if s = [] then []
      else take (rune_size s) s @ new @ insert_runes new (drop (rune_size s) s))"
  by pat_completeness auto
termination
proof (relation "measure (\<lambda>(new, s). length s)")
  show "wf (measure (\<lambda>(new, s). length s))" by simp
next
  fix new s :: string
  assume "s \<noteq> []"
  then have "0 < rune_size s"
    by (cases s) (simp_all add: Let_def)
  with \<open>s \<noteq> []\<close>
  show "((new, drop (rune_size s) s), (new, s)) \<in> measure (\<lambda>(new, s). length s)"
    by simp
qed

declare insert_runes.simps [simp del]

function replace_scan :: "string \<Rightarrow> string \<Rightarrow> string \<Rightarrow> string" where
  "replace_scan [] old new = []"
| "replace_scan (c # s) old new =
     (if old \<noteq> [] \<and> prefix old (c # s)
      then new @ replace_scan (drop (length old) (c # s)) old new
      else c # replace_scan s old new)"
  by pat_completeness auto
termination
  by (relation "measure (\<lambda>(s, old, new). length s)") auto

definition ReplaceAll :: "string \<Rightarrow> string \<Rightarrow> string \<Rightarrow> string" where
  "ReplaceAll s old new =
     (if old = new then s
      else if old = [] then new @ insert_runes new s
      else replace_scan s old new)"

definition HasPrefix :: "string \<Rightarrow> string \<Rightarrow> bool" where
  "HasPrefix s pre = prefix pre s"

text \<open>
  \<open>path.Join\<close> (and \<open>filepath.Join\<close>, the same function where the separator is the slash):
  the elements from the first non-empty one on, joined by slashes, then \<open>Clean\<close>: empty and
  dot elements go, a dot-dot element takes the element before it with it, stays when the
  path is relative and nothing is before it, and goes when the path is rooted.
\<close>

fun join_with :: "string \<Rightarrow> string list \<Rightarrow> string" where
  "join_with sep [] = []"
| "join_with sep [x] = x"
| "join_with sep (x # y # zs) = x @ sep @ join_with sep (y # zs)"

fun split_on :: "char \<Rightarrow> string \<Rightarrow> string list" where
  "split_on sep [] = [[]]"
| "split_on sep (c # s) =
     (if c = sep then [] # split_on sep s
      else (case split_on sep s of [] \<Rightarrow> [[c]] | p # ps \<Rightarrow> (c # p) # ps))"

definition clean_step :: "bool \<Rightarrow> string list \<Rightarrow> string \<Rightarrow> string list" where
  "clean_step rooted out e =
     (if e = [] \<or> e = ''.'' then out
      else if e = ''..'' then
        (if out \<noteq> [] \<and> last out \<noteq> ''..'' then butlast out
         else if \<not> rooted then out @ [''..'']
         else out)
      else out @ [e])"

definition Clean :: "string \<Rightarrow> string" where
  "Clean p =
     (if p = [] then ''.''
      else
        let rooted = (hd p = CHR ''/'');
            out = (if rooted then ''/'' else []) @
                  join_with ''/'' (foldl (clean_step rooted) [] (split_on CHR ''/'' p))
        in if out = [] then ''.'' else out)"

definition path_Join :: "string list \<Rightarrow> string" where
  "path_Join elem =
     (case dropWhile (\<lambda>e. e = []) elem of
        [] \<Rightarrow> []
      | es \<Rightarrow> Clean (join_with ''/'' es))"

subsection \<open>execCmd\<close>

text \<open>
  The parameter \<open>env\<close> is never read in the body: the source sets \<open>cmd.Dir\<close> and leaves
  \<open>cmd.Env\<close> nil. \<open>errStdout\<close> and \<open>errStderr\<close> are the values the two variables have when
  the line after \<open>cmd.Wait()\<close> reads them. The copies of the output to the streams of the
  calling process are no part of the model.
\<close>

definition exec_Command :: "string \<Rightarrow> string list \<Rightarrow> Cmd" where
  "exec_Command name' arg = \<lparr>cmd_Name = name', cmd_Args = name' # arg, cmd_Dir = [], cmd_Env = None\<rparr>"

definition execCmd ::
  "Wrapper \<Rightarrow> string list \<Rightarrow> string \<Rightarrow> string \<Rightarrow> string list \<Rightarrow> world
     \<Rightarrow> (string \<times> go_error option) \<times> world" where
  "execCmd w env dir command cmdArgs wd =
     (let cwd = dir;
          cmd = (exec_Command command cmdArgs)\<lparr>cmd_Dir := cwd\<rparr>;
          wd' = emit (Start cmd) wd
      in case procs wd (started (trace wd)) cmd of
           StartFails err \<Rightarrow> (([], Some err), wd')
         | Runs out co ce werr \<Rightarrow>
             let errStdout = seen co;
                 errStderr = seen ce
             in if errStdout \<noteq> None \<or> errStderr \<noteq> None
                then (([], Some (errors_New ''failed to capture stdout or stderr'')), wd')
                else ((TrimSpace out, werr), wd'))"

subsection \<open>Construction and the accessors\<close>

definition getSLSPath :: "world \<Rightarrow> (go_error + string) \<times> world" where
  "getSLSPath wd = (lookups wd (length (trace wd)) ''sls'', emit (LookPath ''sls'') wd)"

text \<open>
  \<open>yaml.Unmarshal\<close> (gopkg.in/yaml.v2) into a zero \<open>ServiceStack\<close> is a parameter: from the
  bytes of the file, an error or the filled structure.
\<close>

definition ParseConfig ::
  "(string \<Rightarrow> go_error + ServiceStack) \<Rightarrow> string \<Rightarrow> string \<Rightarrow> world
     \<Rightarrow> (go_error + ServiceStack) \<times> world" where
  "ParseConfig yaml_Unmarshal provider' yamlDirPath' wd =
     (let file = path_Join [yamlDirPath', YamlName];
          wd' = emit (ReadFile file) wd
      in case files wd (length (trace wd)) file of
           Inl err \<Rightarrow> (Inl err, wd')
         | Inr yamlData \<Rightarrow>
             (case yaml_Unmarshal yamlData of
                Inl err \<Rightarrow> (Inl err, wd')
              | Inr slsData \<Rightarrow>
                  if provider' \<noteq> prov_Name (stk_Provider slsData)
                  then (Inl (errors_New (''expected provider '' @ provider' @
                          '', found provider: '' @ prov_Name (stk_Provider slsData))), wd')
                  else (Inr slsData, wd')))"

definition New ::
  "(string \<Rightarrow> go_error + ServiceStack) \<Rightarrow> string \<Rightarrow> string \<Rightarrow> world
     \<Rightarrow> (go_error + Wrapper) \<times> world" where
  "New yaml_Unmarshal provider' yamlDirPath' wd =
     (case getSLSPath wd of
        (Inl err, wd1) \<Rightarrow> (Inl (errors_New ''serverless framework is not installed''), wd1)
      | (Inr path, wd1) \<Rightarrow>
          (case ParseConfig yaml_Unmarshal provider' yamlDirPath' wd1 of
             (Inl err, wd2) \<Rightarrow> (Inl err, wd2)
           | (Inr stack', wd2) \<Rightarrow>
               (Inr \<lparr>provider = provider', slsPath = path, yamlDirPath = yamlDirPath',
                     stack = stack', suffixW = [], Opts = []\<rparr>, wd2)))"

definition ListFunctionsFromYaml :: "Wrapper \<Rightarrow> Functions" where
  "ListFunctionsFromYaml w = stk_Functions (stack w)"

definition StackId :: "Wrapper \<Rightarrow> string" where
  "StackId w = ReplaceAll (stk_StackId (stack w)) ''-${opt:suffix}'' []"

definition Project :: "Wrapper \<Rightarrow> string" where
  "Project w = prov_Project (stk_Provider (stack w))"

definition Stage :: "Wrapper \<Rightarrow> string" where
  "Stage w = prov_Stage (stk_Provider (stack w))"

subsection \<open>execSlsCmd\<close>

definition time_Second :: nat where
  "time_Second = 1000000000"

text \<open>
  The loop of \<open>execSlsCmd\<close>, from the result of the first call on: while the last call
  returned an error and \<open>retries\<close> is positive, call again, sleep five seconds, count down.
\<close>

fun retry_loop ::
  "Wrapper \<Rightarrow> string \<Rightarrow> string list \<Rightarrow> nat \<Rightarrow> (string \<times> go_error option) \<times> world
     \<Rightarrow> (string \<times> go_error option) \<times> world" where
  "retry_loop w funcDir slsCmd retries ((resp, err), wd) =
     (if err \<noteq> None \<and> retries > 0
      then
        let (r, wd1) = execCmd w [] funcDir ''sls'' slsCmd wd;
            wd2 = emit (Sleep (5 * time_Second)) wd1
        in retry_loop w funcDir slsCmd (retries - 1) (r, wd2)
      else ((resp, err), wd))"

declare retry_loop.simps [simp del]

definition sls_args :: "Wrapper \<Rightarrow> string list \<Rightarrow> string list" where
  "sls_args w slsCmd =
     foldl (\<lambda>args (opt, optVal). (args @ [''--'' @ opt]) @ [optVal])
       ((slsCmd @ [''--suffix'']) @ [suffixW w]) (Opts w)"

definition execSlsCmd ::
  "Wrapper \<Rightarrow> string \<Rightarrow> string list \<Rightarrow> world \<Rightarrow> (string \<times> go_error option) \<times> world" where
  "execSlsCmd w funcDir slsCmd wd =
     (let slsCmd' = sls_args w slsCmd
      in retry_loop w funcDir slsCmd' slsRetries (execCmd w [] funcDir ''sls'' slsCmd' wd))"

subsection \<open>The build steps\<close>

definition platformPath ::
  "Wrapper \<Rightarrow> string \<Rightarrow> world \<Rightarrow> (string \<times> bool \<times> go_error option) \<times> world" where
  "platformPath w platform wd =
     (let srcPath = path_Join [yamlDirPath w, platform];
          wd' = emit (Stat srcPath) wd
      in case stats wd (length (trace wd)) srcPath of
           Some err \<Rightarrow>
             if IsNotExist err then (([], False, None), wd')
             else (([], False, Some err), wd')
         | None \<Rightarrow> ((srcPath, True, None), wd'))"

definition buildJava :: "Wrapper \<Rightarrow> string \<Rightarrow> world \<Rightarrow> go_error option \<times> world" where
  "buildJava w version wd =
     (case platformPath w version wd of
        ((javaPath, javaInStack, Some err), wd1) \<Rightarrow> (Some err, wd1)
      | ((javaPath, javaInStack, None), wd1) \<Rightarrow>
          if \<not> javaInStack then (None, wd1)
          else
            (case execCmd w [] javaPath ''mvn'' [''package''] wd1 of
               ((out, Some err), wd2) \<Rightarrow>
                 if HasPrefix (Error_text err) ''WARNING'' then (None, wd2)
                 else (Some err, wd2)
             | ((out, None), wd2) \<Rightarrow> (None, wd2)))"

definition buildCsharp :: "Wrapper \<Rightarrow> world \<Rightarrow> go_error option \<times> world" where
  "buildCsharp w wd =
     (case platformPath w ''csharp'' wd of
        ((csharpPath, csharpInStack, Some err), wd1) \<Rightarrow> (Some err, wd1)
      | ((csharpPath, csharpInStack, None), wd1) \<Rightarrow>
          if \<not> csharpInStack then (None, wd1)
          else
            (case execCmd w [] csharpPath ''dotnet'' [''restore''] wd1 of
               ((out, Some err), wd2) \<Rightarrow> (Some err, wd2)
             | ((out, None), wd2) \<Rightarrow>
                 (case execCmd w [] csharpPath ''dotnet''
                         [''lambda'', ''package'', ''--configuration'', ''release'',
                          ''--framework'', ''netcoreapp2.1'', ''--output-package'',
                          ''./deploy.zip''] wd2 of
                    ((out', err), wd3) \<Rightarrow> (err, wd3))))"

definition buildGolang :: "Wrapper \<Rightarrow> world \<Rightarrow> go_error option \<times> world" where
  "buildGolang w wd =
     (case platformPath w ''golang'' wd of
        ((golangPath, goInStack, Some err), wd1) \<Rightarrow> (Some err, wd1)
      | ((golangPath, goInStack, None), wd1) \<Rightarrow>
          if \<not> goInStack then (None, wd1)
          else
            (let env = [''GOOS=linux'', ''GO111MODULE=on''] in
             case execCmd w env golangPath ''go''
                     [''build'', ''-ldflags'', ''-s'', ''-ldflags'', ''-w'', ''-o'',
                      ''bin/hello'', ''main.go''] wd1 of
               ((out, err), wd2) \<Rightarrow> (err, wd2)))"

subsection \<open>The operations\<close>

definition rename_functions :: "string \<Rightarrow> Functions \<Rightarrow> Functions" where
  "rename_functions sfx fs =
     (\<lambda>k. case fs k of
            None \<Rightarrow> None
          | Some v \<Rightarrow> Some (v\<lparr>Name := ReplaceAll (Name v) ''${opt:suffix}'' sfx\<rparr>))"

definition DeployStack :: "Wrapper \<Rightarrow> world \<Rightarrow> go_error option \<times> Wrapper \<times> world" where
  "DeployStack w wd =
     (let w1 = w\<lparr>suffixW := FormatInt (clock wd (length (trace wd)))\<rparr>;
          wd0 = emit Now wd;
          w2 = w1\<lparr>stack := (stack w1)
                 \<lparr>stk_Functions := rename_functions (suffixW w1) (stk_Functions (stack w1))\<rparr>\<rparr>
      in case buildJava w2 ''java8'' wd0 of
           (Some err, wd1) \<Rightarrow> (Some err, w2, wd1)
         | (None, wd1) \<Rightarrow>
        (case buildJava w2 ''java11'' wd1 of
           (Some err, wd2) \<Rightarrow> (Some err, w2, wd2)
         | (None, wd2) \<Rightarrow>
        (case buildCsharp w2 wd2 of
           (Some err, wd3) \<Rightarrow> (Some err, w2, wd3)
         | (None, wd3) \<Rightarrow>
        (case buildGolang w2 wd3 of
           (Some err, wd4) \<Rightarrow> (Some err, w2, wd4)
         | (None, wd4) \<Rightarrow>
        (case execSlsCmd w2 (yamlDirPath w2) [''deploy'', ''--no-aws-s3-accelerate''] wd4 of
           ((out, err), wd5) \<Rightarrow> (err, w2, wd5))))))"

definition RemoveStack :: "Wrapper \<Rightarrow> world \<Rightarrow> go_error option \<times> world" where
  "RemoveStack w wd =
     (case execSlsCmd w (yamlDirPath w) [''remove''] wd of ((out, err), wd') \<Rightarrow> (err, wd'))"

definition ListFunction :: "Wrapper \<Rightarrow> world \<Rightarrow> go_error option \<times> world" where
  "ListFunction w wd =
     (case execSlsCmd w (yamlDirPath w) [''deploy'', ''list'', ''functions''] wd of
        ((out, err), wd') \<Rightarrow> (err, wd'))"

subsection \<open>Notions the properties are stated with\<close>

text \<open>
  The world after further events, and the events a call has added to a world.
\<close>

definition add_events :: "world \<Rightarrow> event list \<Rightarrow> world" where
  "add_events wd es = wd\<lparr>trace := trace wd @ es\<rparr>"

definition new_events :: "world \<Rightarrow> world \<Rightarrow> event list" where
  "new_events wd wd' = drop (length (trace wd)) (trace wd')"

text \<open>
  What \<open>execCmd\<close> returns for a command that does \<open>oc\<close> (lemma \<open>execCmd_eq\<close>), the command
  \<open>execSlsCmd\<close> starts, and what its attempt number \<open>i\<close> (from 0) returns when the call
  begins in the world \<open>wd\<close>.
\<close>

definition cmd_result :: "proc_outcome \<Rightarrow> string \<times> go_error option" where
  "cmd_result oc =
     (case oc of
        StartFails err \<Rightarrow> ([], Some err)
      | Runs out co ce werr \<Rightarrow>
          if seen co = None \<and> seen ce = None then (TrimSpace out, werr)
          else ([], Some (errors_New ''failed to capture stdout or stderr'')))"

definition sls_command :: "Wrapper \<Rightarrow> string \<Rightarrow> string list \<Rightarrow> Cmd" where
  "sls_command w funcDir slsCmd =
     (exec_Command ''sls'' (sls_args w slsCmd))\<lparr>cmd_Dir := funcDir\<rparr>"

definition attempt ::
  "Wrapper \<Rightarrow> string \<Rightarrow> string list \<Rightarrow> world \<Rightarrow> nat \<Rightarrow> string \<times> go_error option" where
  "attempt w funcDir slsCmd wd i =
     cmd_result (procs wd (started (trace wd) + i) (sls_command w funcDir slsCmd))"

subsection \<open>Example inputs\<close>

definition ex_exit :: go_error where
  "ex_exit = GoError ''exit status 1'' False"

definition ex_enoent :: go_error where
  "ex_enoent = GoError ''stat: no such file or directory'' True"

text \<open>
  What \<open>io.Copy\<close> returns when \<open>cmd.Wait()\<close> has closed the pipe under it, and the error of a
  tool that only warns.
\<close>

definition ex_closed :: go_error where
  "ex_closed = GoError ''read |0: file already closed'' False"

definition ex_warning :: go_error where
  "ex_warning = GoError ''WARNING: An illegal reflective access operation has occurred'' False"

definition ex_world :: "(nat \<Rightarrow> Cmd \<Rightarrow> proc_outcome) \<Rightarrow> (string \<Rightarrow> go_error option) \<Rightarrow> world" where
  "ex_world ps st =
     \<lparr>trace = [], procs = ps, stats = (\<lambda>t. st), clock = (\<lambda>t. 1700000000000000000),
      files = (\<lambda>t p. Inl ex_enoent), lookups = (\<lambda>t p. Inr ''/usr/local/bin/sls'')\<rparr>"

text \<open>A tool that fails until \<open>n\<close> commands have been started, and one that always fails.\<close>

definition ex_flaky :: "nat \<Rightarrow> nat \<Rightarrow> Cmd \<Rightarrow> proc_outcome" where
  "ex_flaky n k c =
     (if k < n then Runs ''Rate exceeded'' (Copied None) (Copied None) (Some ex_exit)
      else Runs ''Service deployed '' (Copied None) (Copied None) None)"

definition ex_broken :: "nat \<Rightarrow> Cmd \<Rightarrow> proc_outcome" where
  "ex_broken k c = Runs ''Rate exceeded'' (Copied None) (Copied None) (Some ex_exit)"

definition ex_all_dirs :: "string \<Rightarrow> go_error option" where
  "ex_all_dirs p = None"

definition ex_no_dirs :: "string \<Rightarrow> go_error option" where
  "ex_no_dirs p = Some ex_enoent"

definition ex_stack :: "string \<Rightarrow> ServiceStack" where
  "ex_stack sid =
     \<lparr>stk_StackId = sid,
      stk_Provider = \<lparr>prov_Name = ''aws'', prov_Project = ''demo'', prov_Stage = ''dev''\<rparr>,
      stk_Functions = [''hello'' \<mapsto>
        \<lparr>Name = ''hello-${opt:suffix}'', Handler = ''bin/hello'', Description = ''says hello'',
         Runtime = ''go1.x'', MemorySize = ''128''\<rparr>]\<rparr>"

definition ex_wrapper :: "string \<Rightarrow> Wrapper" where
  "ex_wrapper sid =
     \<lparr>provider = ''aws'', slsPath = ''/usr/local/bin/sls'', yamlDirPath = ''/srv/app'',
      stack = ex_stack sid, suffixW = [], Opts = []\<rparr>"

section \<open>Properties\<close>

subsection \<open>Worlds and traces\<close>

lemma trace_emit [simp]: "trace (emit e wd) = trace wd @ [e]"
  by (simp add: emit_def)

lemma oracles_emit [simp]:
  "procs (emit e wd) = procs wd" "stats (emit e wd) = stats wd" "clock (emit e wd) = clock wd"
  "files (emit e wd) = files wd" "lookups (emit e wd) = lookups wd"
  by (simp_all add: emit_def)

lemma trace_add_events [simp]: "trace (add_events wd es) = trace wd @ es"
  by (simp add: add_events_def)

lemma oracles_add_events [simp]:
  "procs (add_events wd es) = procs wd" "stats (add_events wd es) = stats wd"
  "clock (add_events wd es) = clock wd"
  by (simp_all add: add_events_def)

lemma add_events_twice [simp]: "add_events (add_events wd es) es' = add_events wd (es @ es')"
  by (simp add: add_events_def)

lemma add_events_Nil [simp]: "add_events wd [] = wd"
  by (simp add: add_events_def)

lemma emit_add_events: "emit e wd = add_events wd [e]"
  by (simp add: add_events_def emit_def)

lemma new_events_add_events [simp]: "new_events wd (add_events wd es) = es"
  by (simp add: new_events_def)

lemma started_append [simp]: "started (xs @ ys) = started xs + started ys"
  by (simp add: started_def)

lemma started_Nil [simp]: "started [] = 0"
  by (simp add: started_def)

lemma started_Cons [simp]: "started (e # tr) = (if is_Start e then Suc (started tr) else started tr)"
  by (simp add: started_def)

lemma execCmd_eq:
  "execCmd w env dir command cmdArgs wd =
     (cmd_result (procs wd (started (trace wd)) ((exec_Command command cmdArgs)\<lparr>cmd_Dir := dir\<rparr>)),
      add_events wd [Start ((exec_Command command cmdArgs)\<lparr>cmd_Dir := dir\<rparr>)])"
  by (auto simp: execCmd_def cmd_result_def emit_add_events Let_def split: proc_outcome.splits)

subsection \<open>execCmd\<close>

text \<open>
  C9 does not hold of the code: a copy that fails is not always reported. \<open>execCmd\<close> reads
  \<open>errStdout\<close> and \<open>errStderr\<close> right after \<open>cmd.Wait()\<close> and never waits for the two
  goroutines that assign them. When one of the copies fails, but its goroutine has not yet
  assigned the error when the variables are read and the other variable is nil too, the call
  returns no capture failure: it returns what the buffer holds at that time, trimmed, with
  the error of \<open>cmd.Wait()\<close>, which is nil when the process exited with status 0.
\<close>

theorem execCmd_misses_copy_failure:
  assumes "procs wd (started (trace wd)) ((exec_Command command cmdArgs)\<lparr>cmd_Dir := dir\<rparr>)
             = Runs out co ce werr"
    and "copy_result co \<noteq> None \<or> copy_result ce \<noteq> None"
    and "seen co = None" and "seen ce = None"
  shows "fst (execCmd w env dir command cmdArgs wd) = (TrimSpace out, werr)"
  using assms by (simp add: execCmd_def Let_def)

theorem execCmd_misses_copy_failure_witness:
  "fst (execCmd (ex_wrapper ''svc'') [] ''/srv/app'' ''sls'' [''remove'']
          (ex_world (\<lambda>k c. Runs ''Serverless: Removing '' (Copying (Some ex_closed)) (Copied None) None)
             ex_no_dirs))
     = (''Serverless: Removing'', None)
   \<and> copy_result (Copying (Some ex_closed)) = Some ex_closed"
proof -
  have trim: "TrimSpace ''Serverless: Removing '' = ''Serverless: Removing''"
    by (simp add: TrimSpace_def strip_prefixes.simps space_runes_def)
  have a: "procs (ex_world (\<lambda>k c. Runs ''Serverless: Removing '' (Copying (Some ex_closed))
                     (Copied None) None) ex_no_dirs) k c
             = Runs ''Serverless: Removing '' (Copying (Some ex_closed)) (Copied None) None"
    for k c by (simp add: ex_world_def)
  show ?thesis
    using execCmd_misses_copy_failure [OF a, of "ex_wrapper ''svc''" "[]"] trim
    by simp
qed

subsection \<open>execSlsCmd\<close>

lemma retry_loop_done: "retry_loop w fd args retries ((resp, None), wd) = ((resp, None), wd)"
  by (simp add: retry_loop.simps)

lemma retry_loop_zero: "retry_loop w fd args 0 (r, wd) = (r, wd)"
  by (cases r) (simp add: retry_loop.simps)

lemma retry_loop_step:
  "err \<noteq> None \<Longrightarrow> 0 < retries \<Longrightarrow>
   retry_loop w fd args retries ((resp, err), wd) =
     retry_loop w fd args (retries - 1)
       (cmd_result (procs wd (started (trace wd)) ((exec_Command ''sls'' args)\<lparr>cmd_Dir := fd\<rparr>)),
        add_events wd [Start ((exec_Command ''sls'' args)\<lparr>cmd_Dir := fd\<rparr>), Sleep (5 * time_Second)])"
  by (subst retry_loop.simps) (simp add: execCmd_eq emit_add_events)

text \<open>
  The loop entered after a failure: when the next \<open>n\<close> calls fail and the one after them
  succeeds within the budget, or when every call of the budget fails.
\<close>

lemma retry_loop_succeeds:
  assumes "err \<noteq> None" "n < retries"
    and "\<forall>i<n. snd (cmd_result (procs wd (started (trace wd) + i) c)) \<noteq> None"
    and "snd (cmd_result (procs wd (started (trace wd) + n) c)) = None"
    and "c = (exec_Command ''sls'' args)\<lparr>cmd_Dir := fd\<rparr>"
  shows "retry_loop w fd args retries ((resp, err), wd) =
           (cmd_result (procs wd (started (trace wd) + n) c),
            add_events wd (concat (replicate (Suc n) [Start c, Sleep (5 * time_Second)])))"
  using assms
proof (induction n arbitrary: retries wd resp err)
  case 0
  then show ?case
    by (cases "cmd_result (procs wd (started (trace wd)) c)")
       (simp add: retry_loop_step retry_loop_done)
next
  case (Suc n)
  obtain resp' err' where r: "cmd_result (procs wd (started (trace wd)) c) = (resp', err')"
    by (cases "cmd_result (procs wd (started (trace wd)) c)")
  from Suc.prems(3) have "snd (cmd_result (procs wd (started (trace wd) + 0) c)) \<noteq> None"
    by blast
  with r have e': "err' \<noteq> None" by simp
  let ?wd = "add_events wd [Start c, Sleep (5 * time_Second)]"
  have k: "started (trace ?wd) = Suc (started (trace wd))" by simp
  have "retry_loop w fd args retries ((resp, err), wd)
          = retry_loop w fd args (retries - 1) ((resp', err'), ?wd)"
    using Suc.prems(1,2,5) r by (simp add: retry_loop_step)
  also have "\<dots> = (cmd_result (procs ?wd (started (trace ?wd) + n) c),
            add_events ?wd (concat (replicate (Suc n) [Start c, Sleep (5 * time_Second)])))"
  proof (rule Suc.IH [OF e'])
    show "n < retries - 1" using Suc.prems(2) by simp
    show "\<forall>i<n. snd (cmd_result (procs ?wd (started (trace ?wd) + i) c)) \<noteq> None"
      using Suc.prems(3) by (auto simp: k)
    show "snd (cmd_result (procs ?wd (started (trace ?wd) + n) c)) = None"
      using Suc.prems(4) by (simp add: k)
    show "c = (exec_Command ''sls'' args)\<lparr>cmd_Dir := fd\<rparr>" by fact
  qed
  finally show ?case by (simp add: k)
qed

lemma retry_loop_exhausts:
  assumes "err \<noteq> None" "0 < retries"
    and "\<forall>i<retries. snd (cmd_result (procs wd (started (trace wd) + i) c)) \<noteq> None"
    and "c = (exec_Command ''sls'' args)\<lparr>cmd_Dir := fd\<rparr>"
  shows "retry_loop w fd args retries ((resp, err), wd) =
           (cmd_result (procs wd (started (trace wd) + (retries - 1)) c),
            add_events wd (concat (replicate retries [Start c, Sleep (5 * time_Second)])))"
  using assms
proof (induction retries arbitrary: wd resp err)
  case 0
  then show ?case by simp
next
  case (Suc retries)
  obtain resp' err' where r: "cmd_result (procs wd (started (trace wd)) c) = (resp', err')"
    by (cases "cmd_result (procs wd (started (trace wd)) c)")
  from Suc.prems(3) have "snd (cmd_result (procs wd (started (trace wd) + 0) c)) \<noteq> None"
    by blast
  with r have e': "err' \<noteq> None" by simp
  let ?wd = "add_events wd [Start c, Sleep (5 * time_Second)]"
  have k: "started (trace ?wd) = Suc (started (trace wd))" by simp
  have step: "retry_loop w fd args (Suc retries) ((resp, err), wd)
          = retry_loop w fd args retries ((resp', err'), ?wd)"
    using Suc.prems(1,4) r by (simp add: retry_loop_step)
  show ?case
  proof (cases retries)
    case 0
    then show ?thesis using step r by (simp add: retry_loop_zero)
  next
    case (Suc m)
    have "retry_loop w fd args retries ((resp', err'), ?wd)
        = (cmd_result (procs ?wd (started (trace ?wd) + (retries - 1)) c),
            add_events ?wd (concat (replicate retries [Start c, Sleep (5 * time_Second)])))"
    proof (rule Suc.IH [OF e'])
      show "0 < retries" using Suc by simp
      show "\<forall>i<retries. snd (cmd_result (procs ?wd (started (trace ?wd) + i) c)) \<noteq> None"
        using Suc.prems(3) by (auto simp: k)
      show "c = (exec_Command ''sls'' args)\<lparr>cmd_Dir := fd\<rparr>" by fact
    qed
    with step show ?thesis using Suc by (simp add: k)
  qed
qed

text \<open>The whole call, with the trace it leaves.\<close>

lemma execSlsCmd_succeeds:
  assumes "n \<le> slsRetries"
    and "\<forall>i<n. snd (attempt w funcDir slsCmd wd i) \<noteq> None"
    and "snd (attempt w funcDir slsCmd wd n) = None"
  shows "execSlsCmd w funcDir slsCmd wd =
           (attempt w funcDir slsCmd wd n,
            add_events wd (Start (sls_command w funcDir slsCmd) #
              concat (replicate n [Start (sls_command w funcDir slsCmd), Sleep (5 * time_Second)])))"
proof (cases n)
  case 0
  then show ?thesis
    using assms(3)
    by (cases "attempt w funcDir slsCmd wd 0")
       (simp add: execSlsCmd_def execCmd_eq attempt_def sls_command_def retry_loop_done Let_def)
next
  case (Suc m)
  let ?c = "sls_command w funcDir slsCmd"
  let ?wd = "add_events wd [Start ?c]"
  obtain resp err where r: "attempt w funcDir slsCmd wd 0 = (resp, err)"
    by (cases "attempt w funcDir slsCmd wd 0")
  from assms(2) Suc have "snd (attempt w funcDir slsCmd wd 0) \<noteq> None" by blast
  with r have e: "err \<noteq> None" by simp
  have "retry_loop w funcDir (sls_args w slsCmd) slsRetries ((resp, err), ?wd) =
           (cmd_result (procs ?wd (started (trace ?wd) + m) ?c),
            add_events ?wd (concat (replicate (Suc m) [Start ?c, Sleep (5 * time_Second)])))"
  proof (rule retry_loop_succeeds [OF e])
    show "m < slsRetries" using assms(1) Suc by simp
    show "\<forall>i<m. snd (cmd_result (procs ?wd (started (trace ?wd) + i) ?c)) \<noteq> None"
      using assms(2) Suc by (auto simp: attempt_def)
    show "snd (cmd_result (procs ?wd (started (trace ?wd) + m) ?c)) = None"
      using assms(3) Suc by (simp add: attempt_def)
    show "?c = (exec_Command ''sls'' (sls_args w slsCmd))\<lparr>cmd_Dir := funcDir\<rparr>"
      by (simp add: sls_command_def)
  qed
  moreover have "execSlsCmd w funcDir slsCmd wd =
      retry_loop w funcDir (sls_args w slsCmd) slsRetries ((resp, err), ?wd)"
    using r by (simp add: execSlsCmd_def execCmd_eq attempt_def sls_command_def Let_def)
  ultimately show ?thesis
    using Suc by (simp add: attempt_def)
qed

lemma execSlsCmd_exhausts:
  assumes "\<forall>i\<le> slsRetries. snd (attempt w funcDir slsCmd wd i) \<noteq> None"
  shows "execSlsCmd w funcDir slsCmd wd =
           (attempt w funcDir slsCmd wd slsRetries,
            add_events wd (Start (sls_command w funcDir slsCmd) #
              concat (replicate slsRetries
                [Start (sls_command w funcDir slsCmd), Sleep (5 * time_Second)])))"
proof -
  let ?c = "sls_command w funcDir slsCmd"
  let ?wd = "add_events wd [Start ?c]"
  obtain resp err where r: "attempt w funcDir slsCmd wd 0 = (resp, err)"
    by (cases "attempt w funcDir slsCmd wd 0")
  from assms have "snd (attempt w funcDir slsCmd wd 0) \<noteq> None" by blast
  with r have e: "err \<noteq> None" by simp
  have "retry_loop w funcDir (sls_args w slsCmd) slsRetries ((resp, err), ?wd) =
           (cmd_result (procs ?wd (started (trace ?wd) + (slsRetries - 1)) ?c),
            add_events ?wd (concat (replicate slsRetries [Start ?c, Sleep (5 * time_Second)])))"
  proof (rule retry_loop_exhausts [OF e])
    show "0 < slsRetries" by (simp add: slsRetries_def)
    show "\<forall>i < slsRetries. snd (cmd_result (procs ?wd (started (trace ?wd) + i) ?c)) \<noteq> None"
    proof (intro allI impI)
      fix i
      assume "i < slsRetries"
      then have "Suc i \<le> slsRetries" by simp
      with assms have "snd (attempt w funcDir slsCmd wd (Suc i)) \<noteq> None" by blast
      then show "snd (cmd_result (procs ?wd (started (trace ?wd) + i) ?c)) \<noteq> None"
        by (simp add: attempt_def)
    qed
    show "?c = (exec_Command ''sls'' (sls_args w slsCmd))\<lparr>cmd_Dir := funcDir\<rparr>"
      by (simp add: sls_command_def)
  qed
  moreover have "execSlsCmd w funcDir slsCmd wd =
      retry_loop w funcDir (sls_args w slsCmd) slsRetries ((resp, err), ?wd)"
    using r by (simp add: execSlsCmd_def execCmd_eq attempt_def sls_command_def Let_def)
  moreover have "started (trace ?wd) + (slsRetries - 1) = started (trace wd) + slsRetries"
    by (simp add: slsRetries_def)
  ultimately show ?thesis
    by (simp add: attempt_def)
qed

lemma replicate_numeral: "replicate (numeral k) x = x # replicate (pred_numeral k) x"
  by (simp add: numeral_eq_Suc)

lemma filter_Start_rounds:
  "filter is_Start (concat (replicate n [Start c, Sleep d])) = replicate n (Start c)"
  by (induction n) simp_all

lemma filter_Sleep_rounds:
  "filter is_Sleep (concat (replicate n [Start c, Sleep d])) = replicate n (Sleep d)"
  by (induction n) simp_all

lemma set_rounds: "set (concat (replicate n [Start c, Sleep d])) \<subseteq> {Start c, Sleep d}"
  by (induction n) auto

text \<open>Every call ends in one of the two ways.\<close>

lemma execSlsCmd_cases:
  obtains n where "n \<le> slsRetries" "\<forall>i<n. snd (attempt w funcDir slsCmd wd i) \<noteq> None"
      "snd (attempt w funcDir slsCmd wd n) = None"
  | "\<forall>i\<le> slsRetries. snd (attempt w funcDir slsCmd wd i) \<noteq> None"
proof (cases "\<exists>i\<le> slsRetries. snd (attempt w funcDir slsCmd wd i) = None")
  case True
  define n where "n = (LEAST i. snd (attempt w funcDir slsCmd wd i) = None)"
  from True obtain j where j: "j \<le> slsRetries" "snd (attempt w funcDir slsCmd wd j) = None"
    by blast
  have "snd (attempt w funcDir slsCmd wd n) = None"
    unfolding n_def using j(2) by (rule LeastI)
  moreover have "n \<le> j" unfolding n_def using j(2) by (rule Least_le)
  moreover have "\<forall>i<n. snd (attempt w funcDir slsCmd wd i) \<noteq> None"
    unfolding n_def using not_less_Least by blast
  ultimately show ?thesis using that(1) j(1) by (meson le_trans)
next
  case False
  then have "\<forall>i\<le> slsRetries. snd (attempt w funcDir slsCmd wd i) \<noteq> None" by simp
  then show ?thesis by (rule that(2))
qed

lemma execSlsCmd_events:
  "trace (snd (execSlsCmd w funcDir slsCmd wd))
     = trace wd @ new_events wd (snd (execSlsCmd w funcDir slsCmd wd))
   \<and> hd (new_events wd (snd (execSlsCmd w funcDir slsCmd wd))) = Start (sls_command w funcDir slsCmd)
   \<and> new_events wd (snd (execSlsCmd w funcDir slsCmd wd)) \<noteq> []
   \<and> set (new_events wd (snd (execSlsCmd w funcDir slsCmd wd)))
       \<subseteq> {Start (sls_command w funcDir slsCmd), Sleep (5 * time_Second)}"
proof -
  obtain n where "snd (execSlsCmd w funcDir slsCmd wd) =
      add_events wd (Start (sls_command w funcDir slsCmd) #
        concat (replicate n [Start (sls_command w funcDir slsCmd), Sleep (5 * time_Second)]))"
  proof (cases rule: execSlsCmd_cases [of w funcDir slsCmd wd])
    case (1 n)
    show ?thesis by (rule that [of n]) (simp add: execSlsCmd_succeeds [OF 1])
  next
    case 2
    show ?thesis by (rule that [of slsRetries]) (simp add: execSlsCmd_exhausts [OF 2])
  qed
  then show ?thesis
    using set_rounds [of n "sls_command w funcDir slsCmd" "5 * time_Second"]
    by simp
qed

text \<open>
  C1, as the code has it: a call of \<open>execSlsCmd\<close> makes one attempt and up to
  \<open>slsRetries\<close> = 10 further ones. When the first \<open>n\<close> attempts fail and the next one
  succeeds, for any \<open>n\<close> up to 10, the call returns the result of that attempt: the
  invocation was started \<open>n + 1\<close> times, each time the same command, and the call slept
  \<open>n\<close> times. When the attempts 1 to 11 all fail, the call returns the result of the eleventh,
  after eleven starts and ten sleeps. Every sleep is five seconds, and the call adds nothing
  to the trace but these starts and sleeps.
\<close>

theorem execSlsCmd_retries:
  "(\<forall>n\<le> slsRetries.
      (\<forall>i<n. snd (attempt w funcDir slsCmd wd i) \<noteq> None)
        \<and> snd (attempt w funcDir slsCmd wd n) = None \<longrightarrow>
      fst (execSlsCmd w funcDir slsCmd wd) = attempt w funcDir slsCmd wd n
      \<and> filter is_Start (new_events wd (snd (execSlsCmd w funcDir slsCmd wd)))
          = replicate (n + 1) (Start (sls_command w funcDir slsCmd))
      \<and> filter is_Sleep (new_events wd (snd (execSlsCmd w funcDir slsCmd wd)))
          = replicate n (Sleep (5 * time_Second)))
   \<and> ((\<forall>i\<le> slsRetries. snd (attempt w funcDir slsCmd wd i) \<noteq> None) \<longrightarrow>
      fst (execSlsCmd w funcDir slsCmd wd) = attempt w funcDir slsCmd wd 10
      \<and> filter is_Start (new_events wd (snd (execSlsCmd w funcDir slsCmd wd)))
          = replicate 11 (Start (sls_command w funcDir slsCmd))
      \<and> filter is_Sleep (new_events wd (snd (execSlsCmd w funcDir slsCmd wd)))
          = replicate 10 (Sleep (5 * time_Second)))
   \<and> trace (snd (execSlsCmd w funcDir slsCmd wd))
       = trace wd @ new_events wd (snd (execSlsCmd w funcDir slsCmd wd))
   \<and> set (new_events wd (snd (execSlsCmd w funcDir slsCmd wd)))
       \<subseteq> {Start (sls_command w funcDir slsCmd), Sleep (5 * time_Second)}"
proof (intro conjI allI impI)
  fix n
  assume n: "n \<le> slsRetries"
    and h: "(\<forall>i<n. snd (attempt w funcDir slsCmd wd i) \<noteq> None)
        \<and> snd (attempt w funcDir slsCmd wd n) = None"
  note eq = execSlsCmd_succeeds [OF n conjunct1 [OF h] conjunct2 [OF h]]
  show "fst (execSlsCmd w funcDir slsCmd wd) = attempt w funcDir slsCmd wd n"
    by (simp add: eq)
  show "filter is_Start (new_events wd (snd (execSlsCmd w funcDir slsCmd wd)))
          = replicate (n + 1) (Start (sls_command w funcDir slsCmd))"
    by (simp add: eq filter_Start_rounds)
  show "filter is_Sleep (new_events wd (snd (execSlsCmd w funcDir slsCmd wd)))
          = replicate n (Sleep (5 * time_Second))"
    by (simp add: eq filter_Sleep_rounds)
next
  assume h: "\<forall>i\<le> slsRetries. snd (attempt w funcDir slsCmd wd i) \<noteq> None"
  note eq = execSlsCmd_exhausts [OF h]
  have ten: "slsRetries = 10" by (simp add: slsRetries_def)
  show "fst (execSlsCmd w funcDir slsCmd wd) = attempt w funcDir slsCmd wd 10"
    by (simp add: eq ten)
  have "filter is_Start (new_events wd (snd (execSlsCmd w funcDir slsCmd wd)))
          = replicate (Suc slsRetries) (Start (sls_command w funcDir slsCmd))"
    by (simp add: eq filter_Start_rounds)
  then show "filter is_Start (new_events wd (snd (execSlsCmd w funcDir slsCmd wd)))
          = replicate 11 (Start (sls_command w funcDir slsCmd))"
    by (simp add: ten)
  have "filter is_Sleep (new_events wd (snd (execSlsCmd w funcDir slsCmd wd)))
          = replicate slsRetries (Sleep (5 * time_Second))"
    by (simp add: eq filter_Sleep_rounds)
  then show "filter is_Sleep (new_events wd (snd (execSlsCmd w funcDir slsCmd wd)))
          = replicate 10 (Sleep (5 * time_Second))"
    by (simp add: ten)
next
  show "trace (snd (execSlsCmd w funcDir slsCmd wd))
       = trace wd @ new_events wd (snd (execSlsCmd w funcDir slsCmd wd))"
    using execSlsCmd_events [of w funcDir slsCmd wd] by blast
  show "set (new_events wd (snd (execSlsCmd w funcDir slsCmd wd)))
       \<subseteq> {Start (sls_command w funcDir slsCmd), Sleep (5 * time_Second)}"
    using execSlsCmd_events [of w funcDir slsCmd wd] by blast
qed

theorem execSlsCmd_retries_witness:
  "fst (execSlsCmd (ex_wrapper ''svc'') ''/srv/app'' [''remove''] (ex_world (ex_flaky 2) ex_no_dirs))
     = (''Service deployed'', None)
   \<and> length (filter is_Start (new_events (ex_world (ex_flaky 2) ex_no_dirs)
        (snd (execSlsCmd (ex_wrapper ''svc'') ''/srv/app'' [''remove'']
           (ex_world (ex_flaky 2) ex_no_dirs))))) = 3
   \<and> filter is_Sleep (new_events (ex_world (ex_flaky 2) ex_no_dirs)
        (snd (execSlsCmd (ex_wrapper ''svc'') ''/srv/app'' [''remove'']
           (ex_world (ex_flaky 2) ex_no_dirs)))) = [Sleep 5000000000, Sleep 5000000000]
   \<and> fst (execSlsCmd (ex_wrapper ''svc'') ''/srv/app'' [''remove''] (ex_world ex_broken ex_no_dirs))
     = (''Rate exceeded'', Some ex_exit)
   \<and> length (filter is_Start (new_events (ex_world ex_broken ex_no_dirs)
        (snd (execSlsCmd (ex_wrapper ''svc'') ''/srv/app'' [''remove'']
           (ex_world ex_broken ex_no_dirs))))) = 11"
proof -
  have t1: "TrimSpace ''Rate exceeded'' = ''Rate exceeded''"
    by (simp add: TrimSpace_def strip_prefixes.simps space_runes_def)
  have t2: "TrimSpace ''Service deployed '' = ''Service deployed''"
    by (simp add: TrimSpace_def strip_prefixes.simps space_runes_def)
  have a: "attempt (ex_wrapper ''svc'') ''/srv/app'' [''remove''] (ex_world (ex_flaky 2) ex_no_dirs) i
             = (if i < 2 then (''Rate exceeded'', Some ex_exit) else (''Service deployed'', None))"
    for i by (simp add: attempt_def ex_world_def ex_flaky_def cmd_result_def t1 t2)
  have b: "attempt (ex_wrapper ''svc'') ''/srv/app'' [''remove''] (ex_world ex_broken ex_no_dirs) i
             = (''Rate exceeded'', Some ex_exit)"
    for i by (simp add: attempt_def ex_world_def ex_broken_def cmd_result_def t1)
  note flaky = execSlsCmd_retries [of "ex_wrapper ''svc''" "''/srv/app''" "[''remove'']"
      "ex_world (ex_flaky 2) ex_no_dirs", THEN conjunct1, rule_format, of 2]
  note broken = execSlsCmd_retries [of "ex_wrapper ''svc''" "''/srv/app''" "[''remove'']"
      "ex_world ex_broken ex_no_dirs", THEN conjunct2, THEN conjunct1, rule_format]
  have "2 \<le> slsRetries" by (simp add: slsRetries_def)
  from flaky [OF this] broken show ?thesis
    by (simp add: a b time_Second_def replicate_numeral)
qed

theorem execSlsCmd_eleven_attempts_counterexample:
  "fst (execSlsCmd (ex_wrapper ''svc'') ''/srv/app'' [''remove''] (ex_world ex_broken ex_no_dirs))
     = (''Rate exceeded'', Some ex_exit)
   \<and> length (filter is_Start (new_events (ex_world ex_broken ex_no_dirs)
        (snd (execSlsCmd (ex_wrapper ''svc'') ''/srv/app'' [''remove'']
           (ex_world ex_broken ex_no_dirs))))) = 11
   \<and> length (filter is_Start (new_events (ex_world ex_broken ex_no_dirs)
        (snd (execSlsCmd (ex_wrapper ''svc'') ''/srv/app'' [''remove'']
           (ex_world ex_broken ex_no_dirs))))) \<noteq> 10
   \<and> take 3 (new_events (ex_world ex_broken ex_no_dirs)
        (snd (execSlsCmd (ex_wrapper ''svc'') ''/srv/app'' [''remove'']
           (ex_world ex_broken ex_no_dirs))))
     = [Start \<lparr>cmd_Name = ''sls'', cmd_Args = [''sls'', ''remove'', ''--suffix'', []],
                cmd_Dir = ''/srv/app'', cmd_Env = None\<rparr>,
        Start \<lparr>cmd_Name = ''sls'', cmd_Args = [''sls'', ''remove'', ''--suffix'', []],
                cmd_Dir = ''/srv/app'', cmd_Env = None\<rparr>,
        Sleep 5000000000]"
proof -
  have t1: "TrimSpace ''Rate exceeded'' = ''Rate exceeded''"
    by (simp add: TrimSpace_def strip_prefixes.simps space_runes_def)
  have b: "attempt (ex_wrapper ''svc'') ''/srv/app'' [''remove''] (ex_world ex_broken ex_no_dirs) i
             = (''Rate exceeded'', Some ex_exit)"
    for i by (simp add: attempt_def ex_world_def ex_broken_def cmd_result_def t1)
  have c: "sls_command (ex_wrapper ''svc'') ''/srv/app'' [''remove'']
             = \<lparr>cmd_Name = ''sls'', cmd_Args = [''sls'', ''remove'', ''--suffix'', []],
                cmd_Dir = ''/srv/app'', cmd_Env = None\<rparr>"
    by (simp add: sls_command_def sls_args_def exec_Command_def ex_wrapper_def)
  have "\<forall>i\<le> slsRetries.
          snd (attempt (ex_wrapper ''svc'') ''/srv/app'' [''remove''] (ex_world ex_broken ex_no_dirs) i)
            \<noteq> None"
    by (simp add: b)
  from execSlsCmd_exhausts [OF this] show ?thesis
    by (simp add: b c filter_Start_rounds slsRetries_def time_Second_def replicate_numeral)
qed

end
